theory Spec2Isabelle
  imports Complex_Main "HOL-Library.Sublist"
begin

section \<open>Conventions of the embedding\<close>

text \<open>
  The package \<^verbatim>\<open>internal/prometheus\<close> is embedded as follows.
  \<^item> \<^verbatim>\<open>float64\<close> is \<^typ>\<open>real\<close>: arithmetic is exact, there is no rounding, no NaN
    and no infinity.
  \<^item> \<^verbatim>\<open>time.Duration\<close> and instants of \<^verbatim>\<open>time.Time\<close> are \<^typ>\<open>int\<close>, counted in
    nanoseconds; the 64-bit range is written out where the code depends on it.
  \<^item> \<^verbatim>\<open>string\<close> is \<^typ>\<open>string\<close>, one \<^typ>\<open>char\<close> per byte.
  \<^item> \<^verbatim>\<open>time.Now()\<close> is an argument \<open>now\<close> of every operation that reads the clock.
  \<^item> The read/write lock of \<^verbatim>\<open>MockServer\<close> makes every operation atomic; an operation
    is a function from the state (and the clock) to the new state or to the value read.
  \<^item> An \<^verbatim>\<open>error\<close> return is the left summand of a sum type.
  \<^item> The functions of the Go library that the package calls (\<^verbatim>\<open>strings\<close>,
    \<^verbatim>\<open>regexp\<close>, \<^verbatim>\<open>strconv\<close>, \<^verbatim>\<open>fmt\<close>, \<^verbatim>\<open>time\<close>) are defined here after their
    documentation, on the arguments the package gives them.
\<close>

section \<open>Scenario catalog\<close>

type_synonym ScenarioType = string

definition ScenarioHealthy :: ScenarioType where
  "ScenarioHealthy = ''healthy''"

definition ScenarioHighErrors :: ScenarioType where
  "ScenarioHighErrors = ''high-errors''"

definition ScenarioLatencySpike :: ScenarioType where
  "ScenarioLatencySpike = ''latency-spike''"

definition ScenarioGradualDegradation :: ScenarioType where
  "ScenarioGradualDegradation = ''gradual-degradation''"

text \<open>\<^verbatim>\<open>time.Second\<close>, \<^verbatim>\<open>time.Minute\<close> and \<^verbatim>\<open>time.Hour\<close> in nanoseconds.\<close>

definition Second :: int where
  "Second = 1000000000"

definition Minute :: int where
  "Minute = 60 * Second"

definition Hour :: int where
  "Hour = 60 * Minute"

record Scenario =
  Type :: ScenarioType
  Description :: string
  ErrorRateStart :: real
  ErrorRateEnd :: real
  ErrorRateDuration :: int
  LatencyStart :: real
  LatencyEnd :: real
  LatencyDuration :: int
  Up :: real

text \<open>The four entries of the map literal of \<^verbatim>\<open>AllScenarios\<close>, in the order of the source.\<close>

definition healthy_scenario :: Scenario where
  "healthy_scenario =
     \<lparr>Type = ScenarioHealthy,
      Description = ''Healthy application with minimal errors and low latency'',
      ErrorRateStart = 0.1, ErrorRateEnd = 0.1, ErrorRateDuration = 0,
      LatencyStart = 100, LatencyEnd = 100, LatencyDuration = 0,
      Up = 1\<rparr>"

definition high_errors_scenario :: Scenario where
  "high_errors_scenario =
     \<lparr>Type = ScenarioHighErrors,
      Description = ''High error rate that progressively increases'',
      ErrorRateStart = 5.0, ErrorRateEnd = 25.0, ErrorRateDuration = 5 * Minute,
      LatencyStart = 200, LatencyEnd = 200, LatencyDuration = 0,
      Up = 1\<rparr>"

definition latency_spike_scenario :: Scenario where
  "latency_spike_scenario =
     \<lparr>Type = ScenarioLatencySpike,
      Description = ''Latency spike with gradual increase'',
      ErrorRateStart = 0.5, ErrorRateEnd = 0.5, ErrorRateDuration = 0,
      LatencyStart = 150, LatencyEnd = 2000, LatencyDuration = 3 * Minute,
      Up = 1\<rparr>"

definition gradual_degradation_scenario :: Scenario where
  "gradual_degradation_scenario =
     \<lparr>Type = ScenarioGradualDegradation,
      Description = ''Both errors and latency degrade over time'',
      ErrorRateStart = 0.5, ErrorRateEnd = 15.0, ErrorRateDuration = 10 * Minute,
      LatencyStart = 120, LatencyEnd = 800, LatencyDuration = 10 * Minute,
      Up = 1\<rparr>"

definition AllScenarios_entries :: "(ScenarioType \<times> Scenario) list" where
  "AllScenarios_entries =
     [(ScenarioHealthy, healthy_scenario),
      (ScenarioHighErrors, high_errors_scenario),
      (ScenarioLatencySpike, latency_spike_scenario),
      (ScenarioGradualDegradation, gradual_degradation_scenario)]"

text \<open>
  \<^verbatim>\<open>AllScenarios\<close> returns a Go map: a finite partial function from keys to values.
  The keys of the literal are pairwise different, so the map is the literal read as an
  association list.
\<close>

definition AllScenarios :: "ScenarioType \<rightharpoonup> Scenario" where
  "AllScenarios = map_of AllScenarios_entries"

text \<open>The zero value of the struct, which indexing a Go map yields at a missing key.\<close>

definition zero_Scenario :: Scenario where
  "zero_Scenario =
     \<lparr>Type = [], Description = [],
      ErrorRateStart = 0, ErrorRateEnd = 0, ErrorRateDuration = 0,
      LatencyStart = 0, LatencyEnd = 0, LatencyDuration = 0,
      Up = 0\<rparr>"

definition map_index :: "(ScenarioType \<rightharpoonup> Scenario) \<Rightarrow> ScenarioType \<Rightarrow> Scenario" where
  "map_index m k = (case m k of Some s \<Rightarrow> s | None \<Rightarrow> zero_Scenario)"

definition GetScenario :: "ScenarioType \<Rightarrow> Scenario" where
  "GetScenario scenarioType =
     (let scenarios = AllScenarios in
      case scenarios scenarioType of
        Some scenario \<Rightarrow> scenario
      | None \<Rightarrow> map_index scenarios ScenarioHealthy)"

definition ValidScenarioTypes :: "string list" where
  "ValidScenarioTypes =
     [ScenarioHealthy, ScenarioHighErrors, ScenarioLatencySpike, ScenarioGradualDegradation]"

subsection \<open>Interpolation\<close>

text \<open>\<^verbatim>\<open>float64(elapsed) / float64(s.ErrorRateDuration)\<close>, and \<^verbatim>\<open>math.Pow(progress, 2)\<close> as a square.\<close>

definition CalculateErrorRate :: "Scenario \<Rightarrow> int \<Rightarrow> real" where
  "CalculateErrorRate s elapsed =
     (if ErrorRateDuration s = 0 then ErrorRateStart s
      else let progress = real_of_int elapsed / real_of_int (ErrorRateDuration s) in
        if progress \<ge> 1.0 then ErrorRateEnd s
        else ErrorRateStart s + (ErrorRateEnd s - ErrorRateStart s) * progress)"

definition CalculateLatency :: "Scenario \<Rightarrow> int \<Rightarrow> real" where
  "CalculateLatency s elapsed =
     (if LatencyDuration s = 0 then LatencyStart s
      else let progress = real_of_int elapsed / real_of_int (LatencyDuration s) in
        if progress \<ge> 1.0 then LatencyEnd s
        else LatencyStart s + (LatencyEnd s - LatencyStart s) * progress ^ 2)"

definition CalculateUp :: "Scenario \<Rightarrow> real" where
  "CalculateUp s = Up s"

section \<open>Scenario engine\<close>

record MockServer =
  currentScenario :: Scenario
  startTime :: int

record MetricValues =
  ErrorRate :: real
  Latency :: real
  Up_metric :: real

definition NewMockServer :: "int \<Rightarrow> ScenarioType \<Rightarrow> MockServer" where
  "NewMockServer now initialScenario =
     \<lparr>currentScenario = GetScenario initialScenario, startTime = now\<rparr>"

text \<open>\<^verbatim>\<open>time.Since(startTime)\<close> is \<open>now - startTime\<close>.\<close>

definition calculateCurrentMetrics :: "int \<Rightarrow> int \<Rightarrow> Scenario \<Rightarrow> MetricValues" where
  "calculateCurrentMetrics now start scenario =
     (let elapsed = now - start in
      \<lparr>ErrorRate = CalculateErrorRate scenario elapsed,
       Latency = CalculateLatency scenario elapsed,
       Up_metric = CalculateUp scenario\<rparr>)"

definition GetCurrentMetrics :: "MockServer \<Rightarrow> int \<Rightarrow> MetricValues" where
  "GetCurrentMetrics ms now = calculateCurrentMetrics now (startTime ms) (currentScenario ms)"

definition SetScenario :: "MockServer \<Rightarrow> int \<Rightarrow> ScenarioType \<Rightarrow> MockServer" where
  "SetScenario ms now scenarioType =
     (let scenario = GetScenario scenarioType in
      ms\<lparr>currentScenario := scenario, startTime := now\<rparr>)"

definition ResetTimer :: "MockServer \<Rightarrow> int \<Rightarrow> MockServer" where
  "ResetTimer ms now = ms\<lparr>startTime := now\<rparr>"

section \<open>Strings\<close>

text \<open>\<^verbatim>\<open>strings.HasPrefix\<close> and \<^verbatim>\<open>strings.Contains\<close>, on bytes.\<close>

definition HasPrefix :: "string \<Rightarrow> string \<Rightarrow> bool" where
  "HasPrefix s p = prefix p s"

fun Contains :: "string \<Rightarrow> string \<Rightarrow> bool" where
  "Contains [] substr = (substr = [])"
| "Contains (c # cs) substr = (prefix substr (c # cs) \<or> Contains cs substr)"

text \<open>
  \<^verbatim>\<open>strings.TrimSpace\<close> removes the leading and the trailing runes that
  \<^verbatim>\<open>unicode.IsSpace\<close> accepts. Each such rune is written with its UTF-8 bytes: the six
  ASCII ones, U+0085, U+00A0, U+1680, U+2000 to U+200A, U+2028, U+2029, U+202F, U+205F
  and U+3000. A byte sequence that is not valid UTF-8 decodes to U+FFFD, which is no space,
  so trimming stops there as it stops at any other rune.
\<close>

definition white_space :: "string list" where
  "white_space =
     [[CHR 0x09], [CHR 0x0A], [CHR 0x0B], [CHR 0x0C], [CHR 0x0D], [CHR 0x20],
      [CHR 0xC2, CHR 0x85], [CHR 0xC2, CHR 0xA0],
      [CHR 0xE1, CHR 0x9A, CHR 0x80],
      [CHR 0xE2, CHR 0x80, CHR 0x80], [CHR 0xE2, CHR 0x80, CHR 0x81],
      [CHR 0xE2, CHR 0x80, CHR 0x82], [CHR 0xE2, CHR 0x80, CHR 0x83],
      [CHR 0xE2, CHR 0x80, CHR 0x84], [CHR 0xE2, CHR 0x80, CHR 0x85],
      [CHR 0xE2, CHR 0x80, CHR 0x86], [CHR 0xE2, CHR 0x80, CHR 0x87],
      [CHR 0xE2, CHR 0x80, CHR 0x88], [CHR 0xE2, CHR 0x80, CHR 0x89],
      [CHR 0xE2, CHR 0x80, CHR 0x8A],
      [CHR 0xE2, CHR 0x80, CHR 0xA8], [CHR 0xE2, CHR 0x80, CHR 0xA9],
      [CHR 0xE2, CHR 0x80, CHR 0xAF],
      [CHR 0xE2, CHR 0x81, CHR 0x9F],
      [CHR 0xE3, CHR 0x80, CHR 0x80]]"

text \<open>The rest of the string after one leading rune out of \<open>ws\<close>, if it starts with one.\<close>

fun strip_rune :: "string list \<Rightarrow> string \<Rightarrow> string option" where
  "strip_rune [] s = None"
| "strip_rune (w # ws) s =
     (if w \<noteq> [] \<and> prefix w s then Some (drop (length w) s) else strip_rune ws s)"

function TrimLeft :: "string list \<Rightarrow> string \<Rightarrow> string" where
  "TrimLeft ws s = (case strip_rune ws s of None \<Rightarrow> s | Some t \<Rightarrow> TrimLeft ws t)"
  by pat_completeness auto
termination
proof (relation "measure (\<lambda>(ws, s). length s)")
  fix ws :: "string list" and s t :: string
  assume "strip_rune ws s = Some t"
  then have "length t < length s"
    by (induction ws) (auto simp: prefix_def split: if_splits)
  then show "((ws, t), ws, s) \<in> measure (\<lambda>(ws, s). length s)"
    by simp
qed simp

declare TrimLeft.simps [simp del]

text \<open>Trimming at the end reads the runes backwards: the same loop on the reversed bytes.\<close>

definition TrimRight :: "string list \<Rightarrow> string \<Rightarrow> string" where
  "TrimRight ws s = rev (TrimLeft (map rev ws) (rev s))"

definition TrimSpace :: "string \<Rightarrow> string" where
  "TrimSpace s = TrimRight white_space (TrimLeft white_space s)"

subsection \<open>The two regular expressions\<close>

text \<open>
  \<^verbatim>\<open>FindStringSubmatch\<close> returns the leftmost match. The model returns capture group 1 of
  it (\<^verbatim>\<open>matches[1]\<close>), and \<open>None\<close> where Go returns \<^verbatim>\<open>nil\<close>, the one case with
  \<^verbatim>\<open>len(matches) < 2\<close>. The first argument matches the expression at the head of a string.
\<close>

fun FindStringSubmatch :: "(string \<Rightarrow> string option) \<Rightarrow> string \<Rightarrow> string option" where
  "FindStringSubmatch re [] = re []"
| "FindStringSubmatch re (c # cs) =
     (case re (c # cs) of Some g \<Rightarrow> Some g | None \<Rightarrow> FindStringSubmatch re cs)"

text \<open>
  Both expressions are a literal, a greedy non-empty run of one character class, and one
  character outside the class, so the run is the longest one and the match at a given
  position is unique.
\<close>

definition match_run :: "string \<Rightarrow> (char \<Rightarrow> bool) \<Rightarrow> char \<Rightarrow> string \<Rightarrow> string option" where
  "match_run lit cls stop s =
     (if prefix lit s then
        let r = drop (length lit) s; g = takeWhile cls r in
        if g \<noteq> [] \<and> prefix [stop] (drop (length g) r) then Some g else None
      else None)"

text \<open>\<^verbatim>\<open>rate\(([^[]+)\[\<close>\<close>

definition rateRegex :: "string \<Rightarrow> string option" where
  "rateRegex = match_run ''rate('' (\<lambda>c. c \<noteq> CHR ''['') CHR ''[''"

definition is_digit :: "char \<Rightarrow> bool" where
  "is_digit c = (c \<in> set ''0123456789'')"

text \<open>\<^verbatim>\<open>histogram_quantile\(([\d.]+),\<close>\<close>

definition histogramRegex :: "string \<Rightarrow> string option" where
  "histogramRegex =
     match_run ''histogram_quantile('' (\<lambda>c. is_digit c \<or> c = CHR ''.'') CHR '',''"

subsection \<open>Reading and printing numbers\<close>

definition digit_val :: "char \<Rightarrow> nat" where
  "digit_val c = of_char c - 48"

definition decimal_val :: "string \<Rightarrow> nat" where
  "decimal_val ds = foldl (\<lambda>n c. 10 * n + digit_val c) 0 ds"

text \<open>
  \<^verbatim>\<open>strconv.ParseFloat(s, 64)\<close> on the strings that capture group 1 of \<open>histogramRegex\<close>
  can hold, which are made of digits and dots: digits with at most one dot and at least
  one digit are a number, anything else is a syntax error. A number is read exactly.
  A number that rounds to infinity, which is one from \<open>2 ^ 1024 - 2 ^ 970\<close> on, is a range
  error. \<open>None\<close> is \<^verbatim>\<open>err != nil\<close>.
\<close>

definition ParseFloat :: "string \<Rightarrow> real option" where
  "ParseFloat s =
     (let ip = takeWhile is_digit s; r = drop (length ip) s;
          fp = (case r of [] \<Rightarrow> [] | c # cs \<Rightarrow> cs);
          v = real (decimal_val (ip @ fp)) / 10 ^ length fp
      in if (r = [] \<or> (hd r = CHR ''.'' \<and> list_all is_digit fp)) \<and> (ip \<noteq> [] \<or> fp \<noteq> [])
         then (if v \<ge> 2 ^ 1024 - 2 ^ 970 then None else Some v)
         else None)"

definition digit_char :: "nat \<Rightarrow> char" where
  "digit_char n = ''0123456789'' ! (n mod 10)"

function digits_of :: "nat \<Rightarrow> string" where
  "digits_of n =
     (if n < 10 then [digit_char n] else digits_of (n div 10) @ [digit_char (n mod 10)])"
  by pat_completeness auto
termination
  by (relation "measure id") auto

declare digits_of.simps [simp del]

text \<open>The verb \<^verbatim>\<open>%d\<close>.\<close>

definition Sprintf_d :: "int \<Rightarrow> string" where
  "Sprintf_d i = (if i < 0 then CHR ''-'' # digits_of (nat (- i)) else digits_of (nat i))"

text \<open>
  The verbs \<^verbatim>\<open>%.Nf\<close>, and \<^verbatim>\<open>%f\<close> with \<open>N = 6\<close>: the decimal expansion of the value,
  rounded to \<open>N\<close> places, a tie going to the even neighbour.
\<close>

definition round_half_even :: "real \<Rightarrow> int" where
  "round_half_even x =
     (let f = \<lfloor>x\<rfloor>; d = x - real_of_int f in
      if d < 1 / 2 then f else if d > 1 / 2 then f + 1 else if even f then f else f + 1)"

definition Sprintf_f :: "nat \<Rightarrow> real \<Rightarrow> string" where
  "Sprintf_f p x =
     (let n = nat (round_half_even (\<bar>x\<bar> * 10 ^ p));
          ip = digits_of (n div 10 ^ p);
          fp = digits_of (n mod 10 ^ p)
      in (if x < 0 then ''-'' else []) @ ip @
         (if p = 0 then [] else ''.'' @ replicate (p - length fp) CHR ''0'' @ fp))"

section \<open>Human-readable durations\<close>

text \<open>
  Go's integer \<^verbatim>\<open>/\<close> and \<^verbatim>\<open>%\<close> truncate towards zero, and so does the conversion
  \<^verbatim>\<open>int(f)\<close> of a float. \<open>wrap64\<close> is the value a 64-bit signed addition leaves.
\<close>

definition quot :: "int \<Rightarrow> int \<Rightarrow> int" where
  "quot a b = sgn a * sgn b * (\<bar>a\<bar> div \<bar>b\<bar>)"

definition rem :: "int \<Rightarrow> int \<Rightarrow> int" where
  "rem a b = a - b * quot a b"

definition trunc :: "real \<Rightarrow> int" where
  "trunc x = (if x \<ge> 0 then \<lfloor>x\<rfloor> else \<lceil>x\<rceil>)"

definition wrap64 :: "int \<Rightarrow> int" where
  "wrap64 x = (x + 2 ^ 63) mod 2 ^ 64 - 2 ^ 63"

definition maxDuration :: int where
  "maxDuration = 2 ^ 63 - 1"

definition minDuration :: int where
  "minDuration = - (2 ^ 63)"

text \<open>\<^verbatim>\<open>lessThanHalf(x, y)\<close> is \<^verbatim>\<open>uint64(x)+uint64(x) < uint64(y)\<close>.\<close>

definition lessThanHalf :: "int \<Rightarrow> int \<Rightarrow> bool" where
  "lessThanHalf x y = ((x mod 2 ^ 64 + x mod 2 ^ 64) mod 2 ^ 64 < y mod 2 ^ 64)"

text \<open>
  \<^verbatim>\<open>Duration.Round\<close>: to the nearest multiple of \<open>m\<close>, halfway values away from zero,
  and the largest or smallest duration when the result does not fit into 64 bits.
\<close>

definition Round :: "int \<Rightarrow> int \<Rightarrow> int" where
  "Round d m =
     (if m \<le> 0 then d
      else let r = rem d m in
        if d < 0 then
          (let r = - r in
           if lessThanHalf r m then wrap64 (d + r)
           else let d1 = wrap64 (d - m + r) in
             if d1 < d then d1 else minDuration)
        else if lessThanHalf r m then wrap64 (d - r)
        else let d1 = wrap64 (d + m - r) in
          if d1 > d then d1 else maxDuration)"

definition Hours :: "int \<Rightarrow> real" where
  "Hours d =
     (let hour = quot d Hour; nsec = rem d Hour in
      real_of_int hour + real_of_int nsec / (60 * 60 * 1000000000))"

definition Minutes :: "int \<Rightarrow> real" where
  "Minutes d =
     (let min = quot d Minute; nsec = rem d Minute in
      real_of_int min + real_of_int nsec / (60 * 1000000000))"

definition Seconds :: "int \<Rightarrow> real" where
  "Seconds d =
     (let sec = quot d Second; nsec = rem d Second in
      real_of_int sec + real_of_int nsec / 1000000000)"

definition formatDuration :: "int \<Rightarrow> string" where
  "formatDuration d0 =
     (let d = Round d0 Second;
          h = trunc (Hours d);
          m = rem (trunc (Minutes d)) 60;
          s = rem (trunc (Seconds d)) 60
      in if h > 0 then Sprintf_d h @ ''h '' @ Sprintf_d m @ ''m '' @ Sprintf_d s @ ''s''
         else if m > 0 then Sprintf_d m @ ''m '' @ Sprintf_d s @ ''s''
         else Sprintf_d s @ ''s'')"

record ScenarioStatus =
  status_Type :: ScenarioType
  status_Description :: string
  StartTime :: int
  Elapsed :: string
  Metrics :: MetricValues

definition GetStatus :: "MockServer \<Rightarrow> int \<Rightarrow> ScenarioStatus" where
  "GetStatus ms now =
     (let elapsed = now - startTime ms in
      \<lparr>status_Type = Type (currentScenario ms),
       status_Description = Description (currentScenario ms),
       StartTime = startTime ms,
       Elapsed = formatDuration elapsed,
       Metrics = calculateCurrentMetrics now (startTime ms) (currentScenario ms)\<rparr>)"

section \<open>Query evaluation\<close>

definition baselineRequestsPerSecond :: real where
  "baselineRequestsPerSecond = 100.0"

text \<open>
  An \<^verbatim>\<open>error\<close> made by \<^verbatim>\<open>fmt.Errorf\<close> holds its message and nothing else: the error
  summand is the message.
\<close>

definition handleRate :: "string \<Rightarrow> MetricValues \<Rightarrow> string + real" where
  "handleRate query metrics =
     (case FindStringSubmatch rateRegex query of
        None \<Rightarrow> Inl ''invalid rate query format''
      | Some m1 \<Rightarrow>
          let metricName = TrimSpace m1 in
          if Contains metricName ''http_requests_errors_total''
          then Inr ((ErrorRate metrics / 100.0) * baselineRequestsPerSecond)
          else if Contains metricName ''http_request_duration_seconds''
          then Inr (Latency metrics / 1000.0)
          else Inl (''unknown metric in rate query: '' @ metricName))"

definition quantile_multiplier :: "real \<Rightarrow> real" where
  "quantile_multiplier quantile =
     (if quantile \<ge> 0.99 then 2.5
      else if quantile \<ge> 0.95 then 1.5 + (quantile - 0.95) / (0.99 - 0.95) * (2.5 - 1.5)
      else if quantile \<ge> 0.50 then 0.8 + (quantile - 0.50) / (0.95 - 0.50) * (1.5 - 0.8)
      else quantile / 0.50 * 0.8)"

definition handleHistogramQuantile :: "string \<Rightarrow> MetricValues \<Rightarrow> string + real" where
  "handleHistogramQuantile query metrics =
     (case FindStringSubmatch histogramRegex query of
        None \<Rightarrow> Inl ''invalid histogram_quantile format''
      | Some m1 \<Rightarrow>
          (case ParseFloat m1 of
             None \<Rightarrow> Inl (''invalid quantile value: '' @ m1)
           | Some quantile \<Rightarrow>
               if quantile < 0 \<or> quantile > 1
               then Inl (''quantile must be between 0 and 1, got: '' @ Sprintf_f 6 quantile)
               else let meanLatency = Latency metrics / 1000.0;
                        multiplier = quantile_multiplier quantile
                    in Inr (meanLatency * multiplier)))"

definition parseQuery :: "string \<Rightarrow> MetricValues \<Rightarrow> string + real" where
  "parseQuery query0 metrics =
     (let query = TrimSpace query0 in
      if HasPrefix query ''rate('' then handleRate query metrics
      else if HasPrefix query ''histogram_quantile('' then handleHistogramQuantile query metrics
      else if Contains query ''http_requests_errors_total''
      then Inr ((ErrorRate metrics / 100.0) * baselineRequestsPerSecond)
      else if Contains query ''http_request_duration_seconds''
      then Inr (Latency metrics / 1000.0)
      else if Contains query ''up'' then Inr (Up_metric metrics)
      else Inl (''unsupported metric query: '' @ query))"

datatype interface_value = Float64 real | String string

record PrometheusResult =
  Metric :: "string \<rightharpoonup> string"
  Value :: "interface_value list"

record PrometheusData =
  ResultType :: string
  Result :: "PrometheusResult list"

record PrometheusResponse =
  Status :: string
  Data :: PrometheusData
  Error :: string
  ErrorType :: string

text \<open>
  \<^verbatim>\<open>ExecuteQuery\<close> reads the clock twice: \<open>now\<close> for the metrics, \<open>stamp\<close> for the time of
  the sample, of which \<^verbatim>\<open>Unix()\<close> keeps the whole seconds.
\<close>

definition ExecuteQuery :: "MockServer \<Rightarrow> int \<Rightarrow> int \<Rightarrow> string \<Rightarrow> PrometheusResponse" where
  "ExecuteQuery ms now stamp query =
     (let metrics = GetCurrentMetrics ms now in
      case parseQuery query metrics of
        Inl err \<Rightarrow>
          \<lparr>Status = ''error'',
           Data = \<lparr>ResultType = [], Result = []\<rparr>,
           Error = err,
           ErrorType = ''bad_data''\<rparr>
      | Inr v \<Rightarrow>
          \<lparr>Status = ''success'',
           Data = \<lparr>ResultType = ''vector'',
                   Result = [\<lparr>Metric = [''job'' \<mapsto> ''demo-app''],
                              Value = [Float64 (real_of_int (stamp div Second)),
                                       String (Sprintf_f 6 v)]\<rparr>]\<rparr>,
           Error = [],
           ErrorType = []\<rparr>)"

section \<open>Text exposition\<close>

definition buckets :: "real list" where
  "buckets = [0.005, 0.01, 0.025, 0.05, 0.1, 0.25, 0.5, 1, 2.5, 5, 10]"

text \<open>The latency in seconds after the guard against a zero or negative latency.\<close>

definition latencySeconds :: "MetricValues \<Rightarrow> real" where
  "latencySeconds metrics =
     (let l = Latency metrics / 1000.0 in if l \<le> 0 then 0.001 else l)"

text \<open>
  The body of the loop over the buckets; \<^verbatim>\<open>math.Pow(ratio, 0.5)\<close> is the square root.
\<close>

definition cumCount :: "real \<Rightarrow> real \<Rightarrow> real" where
  "cumCount l bucket =
     (let count = baselineRequestsPerSecond in
      if bucket \<ge> l then count
      else let ratio = bucket / l in count * sqrt ratio)"

definition dq :: string where
  "dq = [CHR 0x22]"

definition nl :: string where
  "nl = [CHR 0x0A]"

definition bucket_line :: "real \<Rightarrow> real \<Rightarrow> string" where
  "bucket_line bucket c =
     ''http_request_duration_seconds_bucket{job='' @ dq @ ''demo-app'' @ dq @ '',le='' @ dq @
       Sprintf_f 3 bucket @ dq @ ''} '' @ Sprintf_f 0 c @ nl"

definition FormatMetrics_of :: "MetricValues \<Rightarrow> string" where
  "FormatMetrics_of metrics =
     (let errorCount = (ErrorRate metrics / 100.0) * baselineRequestsPerSecond;
          l = latencySeconds metrics;
          count = baselineRequestsPerSecond
      in ''# HELP http_requests_errors_total Total number of HTTP request errors'' @ nl @
         ''# TYPE http_requests_errors_total counter'' @ nl @
         ''http_requests_errors_total{job='' @ dq @ ''demo-app'' @ dq @ ''} '' @
           Sprintf_f 2 errorCount @ nl @
         nl @
         ''# HELP http_request_duration_seconds HTTP request latency'' @ nl @
         ''# TYPE http_request_duration_seconds histogram'' @ nl @
         concat (map (\<lambda>bucket. bucket_line bucket (cumCount l bucket)) buckets) @
         ''http_request_duration_seconds_bucket{job='' @ dq @ ''demo-app'' @ dq @ '',le='' @ dq @
           ''+Inf'' @ dq @ ''} '' @ Sprintf_f 0 count @ nl @
         ''http_request_duration_seconds_sum{job='' @ dq @ ''demo-app'' @ dq @ ''} '' @
           Sprintf_f 3 (l * count) @ nl @
         ''http_request_duration_seconds_count{job='' @ dq @ ''demo-app'' @ dq @ ''} '' @
           Sprintf_f 0 count @ nl @
         nl @
         ''# HELP up Service is up'' @ nl @
         ''# TYPE up gauge'' @ nl @
         ''up{job='' @ dq @ ''demo-app'' @ dq @ ''} '' @ Sprintf_f 0 (Up_metric metrics) @ nl)"

definition FormatMetrics :: "MockServer \<Rightarrow> int \<Rightarrow> string" where
  "FormatMetrics ms now = FormatMetrics_of (GetCurrentMetrics ms now)"

section \<open>Listing the scenarios\<close>

text \<open>
  \<^verbatim>\<open>HandleListScenarios\<close> ranges over the map that \<^verbatim>\<open>AllScenarios\<close> returns. Go leaves
  the order of a \<^verbatim>\<open>range\<close> over a map open, and it may differ from one loop to the next;
  each key is visited once. The order the runtime takes is the argument \<open>ks\<close>, and
  \<open>range_order\<close> says which orders it can take. An element of the answer is the pair of
  the values under \<^verbatim>\<open>"type"\<close> and \<^verbatim>\<open>"description"\<close>.
\<close>

definition range_order :: "(ScenarioType \<rightharpoonup> Scenario) \<Rightarrow> ScenarioType list \<Rightarrow> bool" where
  "range_order m ks = (distinct ks \<and> set ks = dom m)"

definition HandleListScenarios :: "ScenarioType list \<Rightarrow> (ScenarioType \<times> string) list" where
  "HandleListScenarios ks =
     (let scenarios = AllScenarios in
      map (\<lambda>k. let scenario = map_index scenarios k in (Type scenario, Description scenario)) ks)"

text \<open>The four pairs of name and description of the catalog.\<close>

definition scenario_items :: "(ScenarioType \<times> string) set" where
  "scenario_items =
     {(''healthy'', ''Healthy application with minimal errors and low latency''),
      (''high-errors'', ''High error rate that progressively increases''),
      (''latency-spike'', ''Latency spike with gradual increase''),
      (''gradual-degradation'', ''Both errors and latency degrade over time'')}"

text \<open>The bytes that occur in the encoding of a white-space rune.\<close>

definition space_bytes :: "char set" where
  "space_bytes = \<Union> (set ` set white_space)"

section \<open>The multiplier as the specification words it\<close>



section \<open>The duration format as the specification words it\<close>

text \<open>The nearest whole second of a duration that is not negative, in seconds.\<close>

definition nearest_second :: "int \<Rightarrow> int" where
  "nearest_second d = (d + 500000000) div 1000000000"

definition spec_formatDuration :: "int \<Rightarrow> string" where
  "spec_formatDuration d =
     (let t = nearest_second d in
      if t < 60 then Sprintf_d t @ ''s''
      else if t < 3600 then Sprintf_d (t div 60) @ ''m '' @ Sprintf_d (t mod 60) @ ''s''
      else Sprintf_d (t div 3600) @ ''h '' @ Sprintf_d (t div 60 mod 60) @ ''m '' @
           Sprintf_d (t mod 60) @ ''s'')"

section \<open>Properties of the catalog\<close>

lemmas ScenarioType_defs =
  ScenarioHealthy_def ScenarioHighErrors_def ScenarioLatencySpike_def
  ScenarioGradualDegradation_def

lemmas scenario_defs =
  healthy_scenario_def high_errors_scenario_def latency_spike_scenario_def
  gradual_degradation_scenario_def

lemma AllScenarios_keys_distinct: "distinct (map fst AllScenarios_entries)"
  by (simp add: AllScenarios_entries_def ScenarioType_defs)

lemma AllScenarios_dom: "dom AllScenarios = set ValidScenarioTypes"
  by (simp add: AllScenarios_def dom_map_of_conv_image_fst AllScenarios_entries_def
      ValidScenarioTypes_def)

lemma AllScenarios_ran:
  "ran AllScenarios =
     {healthy_scenario, high_errors_scenario, latency_spike_scenario,
      gradual_degradation_scenario}"
  unfolding AllScenarios_def ran_distinct [OF AllScenarios_keys_distinct]
  by (simp add: AllScenarios_entries_def)

lemma GetScenario_cases:
  "GetScenario name =
     (if name = ''healthy'' then healthy_scenario
      else if name = ''high-errors'' then high_errors_scenario
      else if name = ''latency-spike'' then latency_spike_scenario
      else if name = ''gradual-degradation'' then gradual_degradation_scenario
      else healthy_scenario)"
  by (simp add: GetScenario_def AllScenarios_def AllScenarios_entries_def map_index_def
      ScenarioType_defs)

subsection \<open>Interpolation over elapsed time\<close>

lemma CalculateErrorRate_zero_duration:
  "ErrorRateDuration s = 0 \<Longrightarrow> CalculateErrorRate s elapsed = ErrorRateStart s"
  by (simp add: CalculateErrorRate_def)

lemma CalculateLatency_zero_duration:
  "LatencyDuration s = 0 \<Longrightarrow> CalculateLatency s elapsed = LatencyStart s"
  by (simp add: CalculateLatency_def)

lemma CalculateErrorRate_pos_duration:
  assumes "0 < ErrorRateDuration s"
  shows "CalculateErrorRate s 0 = ErrorRateStart s"
    and "CalculateErrorRate s (ErrorRateDuration s) = ErrorRateEnd s"
    and "ErrorRateDuration s < elapsed \<Longrightarrow> CalculateErrorRate s elapsed = ErrorRateEnd s"
    and "elapsed < ErrorRateDuration s \<Longrightarrow> CalculateErrorRate s elapsed =
          ErrorRateStart s + (ErrorRateEnd s - ErrorRateStart s) *
            (real_of_int elapsed / real_of_int (ErrorRateDuration s))"
  using assms by (simp_all add: CalculateErrorRate_def Let_def)

lemma CalculateLatency_pos_duration:
  assumes "0 < LatencyDuration s"
  shows "CalculateLatency s 0 = LatencyStart s"
    and "CalculateLatency s (LatencyDuration s) = LatencyEnd s"
    and "LatencyDuration s < elapsed \<Longrightarrow> CalculateLatency s elapsed = LatencyEnd s"
    and "elapsed < LatencyDuration s \<Longrightarrow> CalculateLatency s elapsed =
          LatencyStart s + (LatencyEnd s - LatencyStart s) *
            (real_of_int elapsed / real_of_int (LatencyDuration s)) ^ 2"
  using assms by (simp_all add: CalculateLatency_def Let_def)

text \<open>
  Claim C1. For every scenario of the catalog and every elapsed time that is not negative:
  a metric whose duration is zero stays at its start value; a metric whose duration is
  positive has its start value at elapsed time zero, its end value when the elapsed time
  is the duration, and stays at the end value for every longer elapsed time; before the
  duration is over, the error rate is \<open>start + (end - start) * progress\<close> and the latency is
  \<open>start + (end - start) * progress\<^sup>2\<close>, where \<open>progress\<close> is the elapsed time divided by
  the duration.
\<close>

theorem Calculate_interpolation:
  assumes "s \<in> ran AllScenarios" and "0 \<le> elapsed"
  shows "(ErrorRateDuration s = 0 \<longrightarrow> CalculateErrorRate s elapsed = ErrorRateStart s)
       \<and> (LatencyDuration s = 0 \<longrightarrow> CalculateLatency s elapsed = LatencyStart s)
       \<and> (0 < ErrorRateDuration s \<longrightarrow>
            CalculateErrorRate s 0 = ErrorRateStart s
          \<and> CalculateErrorRate s (ErrorRateDuration s) = ErrorRateEnd s
          \<and> (ErrorRateDuration s < elapsed \<longrightarrow> CalculateErrorRate s elapsed = ErrorRateEnd s)
          \<and> (elapsed < ErrorRateDuration s \<longrightarrow>
               CalculateErrorRate s elapsed =
                 ErrorRateStart s + (ErrorRateEnd s - ErrorRateStart s) *
                   (real_of_int elapsed / real_of_int (ErrorRateDuration s))))
       \<and> (0 < LatencyDuration s \<longrightarrow>
            CalculateLatency s 0 = LatencyStart s
          \<and> CalculateLatency s (LatencyDuration s) = LatencyEnd s
          \<and> (LatencyDuration s < elapsed \<longrightarrow> CalculateLatency s elapsed = LatencyEnd s)
          \<and> (elapsed < LatencyDuration s \<longrightarrow>
               CalculateLatency s elapsed =
                 LatencyStart s + (LatencyEnd s - LatencyStart s) *
                   (real_of_int elapsed / real_of_int (LatencyDuration s)) ^ 2))
       \<and> (ErrorRateDuration s = 0 \<or> 0 < ErrorRateDuration s)
       \<and> (LatencyDuration s = 0 \<or> 0 < LatencyDuration s)"
proof -
  have dur: "0 \<le> ErrorRateDuration s" "0 \<le> LatencyDuration s"
    using assms(1) unfolding AllScenarios_ran
    by (auto simp: scenario_defs Minute_def Second_def)
  have e: "ErrorRateDuration s = 0 \<or> 0 < ErrorRateDuration s"
    and l: "LatencyDuration s = 0 \<or> 0 < LatencyDuration s"
    using dur by linarith+
  show ?thesis
    using e l
    by (intro conjI impI)
      (simp_all add: CalculateErrorRate_zero_duration CalculateLatency_zero_duration
        CalculateErrorRate_pos_duration CalculateLatency_pos_duration)
qed

text \<open>
  The gradual degradation after five of its ten minutes, after twenty minutes, and the
  healthy scenario, whose durations are zero, after one hour.
\<close>

theorem Calculate_interpolation_witness:
  "gradual_degradation_scenario \<in> ran AllScenarios
   \<and> 0 < ErrorRateDuration gradual_degradation_scenario
   \<and> 0 < LatencyDuration gradual_degradation_scenario
   \<and> 5 * Minute < ErrorRateDuration gradual_degradation_scenario
   \<and> CalculateErrorRate gradual_degradation_scenario 0 = 0.5
   \<and> CalculateErrorRate gradual_degradation_scenario (5 * Minute) = 7.75
   \<and> CalculateErrorRate gradual_degradation_scenario (10 * Minute) = 15
   \<and> CalculateErrorRate gradual_degradation_scenario (20 * Minute) = 15
   \<and> CalculateLatency gradual_degradation_scenario 0 = 120
   \<and> CalculateLatency gradual_degradation_scenario (5 * Minute) = 290
   \<and> CalculateLatency gradual_degradation_scenario (10 * Minute) = 800
   \<and> CalculateLatency gradual_degradation_scenario (20 * Minute) = 800
   \<and> healthy_scenario \<in> ran AllScenarios
   \<and> ErrorRateDuration healthy_scenario = 0
   \<and> LatencyDuration healthy_scenario = 0
   \<and> CalculateErrorRate healthy_scenario (60 * Minute) = 0.1
   \<and> CalculateLatency healthy_scenario (60 * Minute) = 100"
proof -
  have g: "gradual_degradation_scenario \<in> ran AllScenarios"
    and h: "healthy_scenario \<in> ran AllScenarios"
    by (simp_all add: AllScenarios_ran)
  have e5: "(0::int) \<le> 5 * Minute" and e20: "(0::int) \<le> 20 * Minute"
    and e60: "(0::int) \<le> 60 * Minute"
    by (simp_all add: Minute_def Second_def)
  show ?thesis
    using Calculate_interpolation [OF g e5] Calculate_interpolation [OF g e20]
      Calculate_interpolation [OF h e60] g h
    by (simp add: scenario_defs Minute_def Second_def power2_eq_square)
qed

subsection \<open>Lookup by name\<close>

text \<open>
  Claim C5. For every name, \<open>GetScenario\<close> returns the entry of the catalog under that name
  when the name is one of \<open>healthy\<close>, \<open>high-errors\<close>, \<open>latency-spike\<close> and
  \<open>gradual-degradation\<close>, and the healthy scenario for every other name; it has no error
  result. So \<open>SetScenario\<close> with a name that is not in the catalog installs the healthy
  scenario (and restarts the timer).
\<close>

theorem GetScenario_fallback:
  "(name \<in> {''healthy'', ''high-errors'', ''latency-spike'', ''gradual-degradation''} \<longrightarrow>
      AllScenarios name = Some (GetScenario name) \<and> Type (GetScenario name) = name)
   \<and> (name \<notin> {''healthy'', ''high-errors'', ''latency-spike'', ''gradual-degradation''} \<longrightarrow>
      AllScenarios name = None
      \<and> GetScenario name = healthy_scenario
      \<and> SetScenario ms now name = \<lparr>currentScenario = healthy_scenario, startTime = now\<rparr>)
   \<and> AllScenarios ''healthy'' = Some healthy_scenario
   \<and> AllScenarios ''high-errors'' = Some high_errors_scenario
   \<and> AllScenarios ''latency-spike'' = Some latency_spike_scenario
   \<and> AllScenarios ''gradual-degradation'' = Some gradual_degradation_scenario
   \<and> currentScenario (SetScenario ms now name) = GetScenario name"
  by (simp add: GetScenario_cases SetScenario_def)
    (simp add: AllScenarios_def AllScenarios_entries_def ScenarioType_defs scenario_defs)

theorem GetScenario_fallback_witness:
  "''latency-spike'' \<in> {''healthy'', ''high-errors'', ''latency-spike'', ''gradual-degradation''}
   \<and> GetScenario ''latency-spike'' = latency_spike_scenario
   \<and> ''no-such-scenario'' \<notin>
        {''healthy'', ''high-errors'', ''latency-spike'', ''gradual-degradation''}
   \<and> GetScenario ''no-such-scenario'' = healthy_scenario
   \<and> SetScenario (NewMockServer 0 ''high-errors'') 7 ''no-such-scenario'' =
        \<lparr>currentScenario = healthy_scenario, startTime = 7\<rparr>"
  using GetScenario_fallback [of "''latency-spike''" "NewMockServer 0 ''high-errors''" 7]
    GetScenario_fallback [of "''no-such-scenario''" "NewMockServer 0 ''high-errors''" 7]
  by simp

subsection \<open>Listing\<close>

lemma map_index_AllScenarios:
  "map_index AllScenarios ''healthy'' = healthy_scenario"
  "map_index AllScenarios ''high-errors'' = high_errors_scenario"
  "map_index AllScenarios ''latency-spike'' = latency_spike_scenario"
  "map_index AllScenarios ''gradual-degradation'' = gradual_degradation_scenario"
  by (simp_all add: map_index_def AllScenarios_def AllScenarios_entries_def ScenarioType_defs)

lemma dom_AllScenarios_names:
  "dom AllScenarios = {''healthy'', ''high-errors'', ''latency-spike'', ''gradual-degradation''}"
  by (simp add: AllScenarios_dom ValidScenarioTypes_def ScenarioType_defs)

lemma HandleListScenarios_keys:
  assumes "set ks \<subseteq> dom AllScenarios"
  shows "map fst (HandleListScenarios ks) = ks"
proof -
  have "\<And>k. k \<in> set ks \<Longrightarrow> Type (map_index AllScenarios k) = k"
    using assms unfolding dom_AllScenarios_names
    by (auto simp: map_index_AllScenarios scenario_defs ScenarioType_defs)
  then show ?thesis
    by (simp add: HandleListScenarios_def Let_def map_idI)
qed

text \<open>
  Claim C8, as the code has it. Whatever order the loop over the map takes, the answer
  holds the four pairs of name and description, each once: it has four elements, no
  element twice, and its elements are the four entries. The keys come in the order the
  loop took, which nothing fixes.
\<close>

theorem HandleListScenarios_entries:
  assumes "range_order AllScenarios ks"
  shows "length (HandleListScenarios ks) = 4
       \<and> distinct (HandleListScenarios ks)
       \<and> set (HandleListScenarios ks) = scenario_items
       \<and> map fst (HandleListScenarios ks) = ks"
proof -
  from assms have d: "distinct ks" and s: "set ks = dom AllScenarios"
    by (simp_all add: range_order_def)
  have keys: "map fst (HandleListScenarios ks) = ks"
    using s by (simp add: HandleListScenarios_keys)
  have "card (set ks) = 4"
    unfolding s dom_AllScenarios_names by simp
  then have len: "length ks = 4"
    using d by (simp add: distinct_card)
  have dist: "distinct (HandleListScenarios ks)"
    using d keys by (metis distinct_map)
  have "set (HandleListScenarios ks) =
      (\<lambda>k. (Type (map_index AllScenarios k), Description (map_index AllScenarios k))) `
        dom AllScenarios"
    by (simp add: HandleListScenarios_def Let_def s)
  also have "\<dots> = scenario_items"
    unfolding dom_AllScenarios_names scenario_items_def
    by (simp add: map_index_AllScenarios scenario_defs ScenarioType_defs)
  finally have set: "set (HandleListScenarios ks) = scenario_items" .
  from len have "length (HandleListScenarios ks) = 4"
    by (simp add: HandleListScenarios_def)
  with dist set keys show ?thesis by simp
qed

theorem HandleListScenarios_entries_witness:
  "range_order AllScenarios [''latency-spike'', ''healthy'', ''gradual-degradation'', ''high-errors'']
   \<and> HandleListScenarios [''latency-spike'', ''healthy'', ''gradual-degradation'', ''high-errors''] =
       [(''latency-spike'', ''Latency spike with gradual increase''),
        (''healthy'', ''Healthy application with minimal errors and low latency''),
        (''gradual-degradation'', ''Both errors and latency degrade over time''),
        (''high-errors'', ''High error rate that progressively increases'')]
   \<and> length (HandleListScenarios [''latency-spike'', ''healthy'', ''gradual-degradation'', ''high-errors'']) = 4
   \<and> set (HandleListScenarios [''latency-spike'', ''healthy'', ''gradual-degradation'', ''high-errors''])
       = scenario_items"
proof -
  have r: "range_order AllScenarios
      [''latency-spike'', ''healthy'', ''gradual-degradation'', ''high-errors'']"
    unfolding range_order_def dom_AllScenarios_names by auto
  have v: "HandleListScenarios [''latency-spike'', ''healthy'', ''gradual-degradation'', ''high-errors''] =
       [(''latency-spike'', ''Latency spike with gradual increase''),
        (''healthy'', ''Healthy application with minimal errors and low latency''),
        (''gradual-degradation'', ''Both errors and latency degrade over time''),
        (''high-errors'', ''High error rate that progressively increases'')]"
    by (simp add: HandleListScenarios_def map_index_AllScenarios scenario_defs ScenarioType_defs)
  show ?thesis
    using HandleListScenarios_entries [OF r] r v by simp
qed

text \<open>
  Claim C8 as stated fails: the loop can take the keys in the order of the source and in
  the opposite order, and the two answers differ.
\<close>

theorem HandleListScenarios_order_counterexample:
  "range_order AllScenarios [''healthy'', ''high-errors'', ''latency-spike'', ''gradual-degradation'']
   \<and> range_order AllScenarios [''gradual-degradation'', ''latency-spike'', ''high-errors'', ''healthy'']
   \<and> HandleListScenarios [''healthy'', ''high-errors'', ''latency-spike'', ''gradual-degradation'']
     \<noteq> HandleListScenarios [''gradual-degradation'', ''latency-spike'', ''high-errors'', ''healthy'']"
proof -
  have "range_order AllScenarios [''healthy'', ''high-errors'', ''latency-spike'', ''gradual-degradation'']"
    unfolding range_order_def dom_AllScenarios_names by auto
  moreover have "range_order AllScenarios [''gradual-degradation'', ''latency-spike'', ''high-errors'', ''healthy'']"
    unfolding range_order_def dom_AllScenarios_names by auto
  moreover have "HandleListScenarios [''healthy'', ''high-errors'', ''latency-spike'', ''gradual-degradation'']
     \<noteq> HandleListScenarios [''gradual-degradation'', ''latency-spike'', ''high-errors'', ''healthy'']"
    by (simp add: HandleListScenarios_def map_index_AllScenarios scenario_defs ScenarioType_defs)
  ultimately show ?thesis by simp
qed

subsection \<open>Strings\<close>

lemma Contains_sublist: "Contains s x \<longleftrightarrow> sublist x s"
  by (induction s) (auto simp: sublist_Cons_right)

lemma strip_rune_Some:
  "strip_rune ws s = Some t \<Longrightarrow> \<exists>w \<in> set ws. w \<noteq> [] \<and> s = w @ t"
  by (induction ws) (auto simp: prefix_def split: if_splits)

text \<open>What trimming removes is made of bytes of the runes it looks for.\<close>

lemma TrimLeft_decomp:
  "\<exists>l. s = l @ TrimLeft ws s \<and> set l \<subseteq> \<Union> (set ` set ws)"
proof (induction ws s rule: TrimLeft.induct)
  case (1 ws s)
  show ?case
  proof (cases "strip_rune ws s")
    case None
    then show ?thesis by (simp add: TrimLeft.simps [of ws s])
  next
    case (Some t)
    then obtain w where w: "w \<in> set ws" "s = w @ t"
      using strip_rune_Some by blast
    from 1 [OF Some] obtain l where l: "t = l @ TrimLeft ws t" "set l \<subseteq> \<Union> (set ` set ws)"
      by blast
    have "TrimLeft ws s = TrimLeft ws t"
      using Some by (simp add: TrimLeft.simps [of ws s])
    then have "s = (w @ l) @ TrimLeft ws s"
      using w(2) l(1) by simp
    moreover have "set (w @ l) \<subseteq> \<Union> (set ` set ws)"
      using w l by auto
    ultimately show ?thesis by blast
  qed
qed

lemma TrimRight_decomp:
  "\<exists>r. s = TrimRight ws s @ r \<and> set r \<subseteq> \<Union> (set ` set ws)"
proof -
  obtain l where l: "rev s = l @ TrimLeft (map rev ws) (rev s)"
    "set l \<subseteq> \<Union> (set ` set (map rev ws))"
    using TrimLeft_decomp by blast
  from l(1) have "s = TrimRight ws s @ rev l"
    unfolding TrimRight_def by (metis rev_append rev_rev_ident)
  moreover have "set (rev l) \<subseteq> \<Union> (set ` set ws)"
    using l(2) by auto
  ultimately show ?thesis by blast
qed

lemma TrimSpace_decomp:
  "\<exists>l r. s = l @ TrimSpace s @ r \<and> set l \<subseteq> space_bytes \<and> set r \<subseteq> space_bytes"
proof -
  obtain l where l: "s = l @ TrimLeft white_space s" "set l \<subseteq> space_bytes"
    unfolding space_bytes_def using TrimLeft_decomp by blast
  obtain r where r: "TrimLeft white_space s = TrimSpace s @ r" "set r \<subseteq> space_bytes"
    unfolding space_bytes_def TrimSpace_def using TrimRight_decomp by blast
  from l r show ?thesis by metis
qed

lemma space_bytes_eq:
  "space_bytes = {CHR 0x09, CHR 0x0A, CHR 0x0B, CHR 0x0C, CHR 0x0D, CHR 0x20,
     CHR 0xC2, CHR 0x85, CHR 0xA0, CHR 0xE1, CHR 0x9A, CHR 0x80, CHR 0xE2, CHR 0x81,
     CHR 0x82, CHR 0x83, CHR 0x84, CHR 0x86, CHR 0x87, CHR 0x88, CHR 0x89, CHR 0x8A,
     CHR 0xA8, CHR 0xA9, CHR 0xAF, CHR 0x9F, CHR 0xE3}"
  unfolding space_bytes_def white_space_def by auto


lemma sublist_drop_left:
  "x \<noteq> [] \<Longrightarrow> hd x \<notin> set l \<Longrightarrow> sublist x (l @ m) \<Longrightarrow> sublist x m"
proof (induction l)
  case Nil
  then show ?case by simp
next
  case (Cons c l)
  from Cons.prems(3) have "prefix x (c # l @ m) \<or> sublist x (l @ m)"
    by (simp add: sublist_Cons_right)
  moreover have "\<not> prefix x (c # l @ m)"
    using Cons.prems(1,2) by (cases x) auto
  ultimately show ?case
    using Cons by simp
qed

lemma sublist_drop_right:
  assumes "x \<noteq> []" "last x \<notin> set r" "sublist x (m @ r)"
  shows "sublist x m"
proof -
  have "sublist (rev x) (rev r @ rev m)"
    using assms(3) by (metis rev_append sublist_rev)
  moreover have "hd (rev x) \<notin> set (rev r)"
    using assms(1,2) by (simp add: hd_rev)
  ultimately have "sublist (rev x) (rev m)"
    using assms(1) sublist_drop_left [of "rev x" "rev r" "rev m"] by simp
  then show ?thesis by simp
qed

text \<open>A word that neither starts nor ends with such a byte occurs in a string exactly
  when it occurs in the trimmed string.\<close>

lemma Contains_TrimSpace:
  assumes "x \<noteq> []" "hd x \<notin> space_bytes" "last x \<notin> space_bytes"
  shows "Contains (TrimSpace s) x \<longleftrightarrow> Contains s x"
proof -
  obtain l r where d: "s = l @ TrimSpace s @ r" "set l \<subseteq> space_bytes" "set r \<subseteq> space_bytes"
    using TrimSpace_decomp by blast
  have "sublist x (TrimSpace s) \<longleftrightarrow> sublist x (l @ TrimSpace s @ r)"
  proof
    assume "sublist x (TrimSpace s)"
    then obtain ps ss where "TrimSpace s = ps @ x @ ss"
      by (auto simp: sublist_def)
    then have "l @ TrimSpace s @ r = (l @ ps) @ x @ (ss @ r)"
      by simp
    then show "sublist x (l @ TrimSpace s @ r)"
      unfolding sublist_def by blast
  next
    assume a: "sublist x (l @ TrimSpace s @ r)"
    have "hd x \<notin> set l" "last x \<notin> set r"
      using assms d by auto
    with a assms(1) show "sublist x (TrimSpace s)"
      by (meson sublist_drop_left sublist_drop_right)
  qed
  then show ?thesis
    using d(1) by (simp add: Contains_sublist)
qed

lemma prefix_TrimSpace:
  assumes "p \<noteq> []" "hd p \<notin> space_bytes" "last p \<notin> space_bytes" "prefix p s"
  shows "prefix p (TrimSpace s)"
proof -
  obtain l r where d: "s = l @ TrimSpace s @ r" "set l \<subseteq> space_bytes" "set r \<subseteq> space_bytes"
    using TrimSpace_decomp by blast
  have "hd s = hd p"
    using assms(1,4) by (auto simp: prefix_def)
  have "l = []"
  proof (rule ccontr)
    assume "l \<noteq> []"
    then have "hd s \<in> set l"
      using d(1) by (metis hd_append2 hd_in_set)
    with \<open>hd s = hd p\<close> d(2) assms(2) show False by auto
  qed
  with d(1) have s: "s = TrimSpace s @ r" by simp
  from assms(4) s have "prefix p (TrimSpace s @ r)" by simp
  then have "prefix p (TrimSpace s) \<or> (\<exists>us. us \<noteq> [] \<and> prefix us r \<and> p = TrimSpace s @ us)"
    unfolding prefix_append by (metis append_Nil2 prefix_order.order_refl)
  then consider "prefix p (TrimSpace s)" | us where "us \<noteq> []" "prefix us r" "p = TrimSpace s @ us"
    by blast
  then show ?thesis
  proof cases
    case 1
    then show ?thesis .
  next
    case 2
    then have "last p = last us" by simp
    moreover have "last us \<in> set r"
      using 2(1,2) by (metis last_in_set set_mono_prefix subsetD)
    ultimately show ?thesis
      using d(3) assms(3) by auto
  qed
qed

subsection \<open>Matching\<close>

lemma FindStringSubmatch_head: "re s = Some g \<Longrightarrow> FindStringSubmatch re s = Some g"
  by (cases s) simp_all

lemma match_run_hit:
  assumes "g \<noteq> []" "\<forall>c \<in> set g. cls c" "\<not> cls stop"
  shows "match_run lit cls stop (lit @ g @ stop # rest) = Some g"
proof -
  have "takeWhile cls (g @ stop # rest) = g"
    using assms(2,3) by (simp add: takeWhile_append2)
  then show ?thesis
    using assms(1) by (simp add: match_run_def)
qed

lemma histogramRegex_hit:
  assumes "a \<noteq> []" "\<forall>c \<in> set a. is_digit c \<or> c = CHR ''.''"
  shows "FindStringSubmatch histogramRegex (''histogram_quantile('' @ a @ '','' @ rest) = Some a"
proof -
  have "\<not> (is_digit CHR '','' \<or> CHR '','' = CHR ''.'')"
    by (simp add: is_digit_def)
  with assms have "histogramRegex (''histogram_quantile('' @ a @ CHR '','' # rest) = Some a"
    unfolding histogramRegex_def by (intro match_run_hit) auto
  then show ?thesis
    by (simp add: FindStringSubmatch_head)
qed

lemma ParseFloat_nonneg: "ParseFloat a = Some q \<Longrightarrow> 0 \<le> q"
  by (auto simp: ParseFloat_def Let_def split: if_splits)

text \<open>The trimmed form of a query \<open>histogram_quantile(a,rest\<close> keeps the head up to the comma.\<close>

lemma TrimSpace_histogram_query:
  "\<exists>rest'. TrimSpace (''histogram_quantile('' @ a @ '','' @ rest) =
      ''histogram_quantile('' @ a @ '','' @ rest'"
proof -
  let ?p = "''histogram_quantile('' @ a @ '',''"
  have "prefix ?p (TrimSpace (?p @ rest))"
    by (rule prefix_TrimSpace) (simp_all add: space_bytes_eq)
  then show ?thesis
    by (auto simp: prefix_def)
qed

lemma parseQuery_histogram_query:
  assumes "a \<noteq> []" "\<forall>c \<in> set a. is_digit c \<or> c = CHR ''.''"
  shows "parseQuery (''histogram_quantile('' @ a @ '','' @ rest) m =
     (case ParseFloat a of
        None \<Rightarrow> Inl (''invalid quantile value: '' @ a)
      | Some q \<Rightarrow>
          if q > 1 then Inl (''quantile must be between 0 and 1, got: '' @ Sprintf_f 6 q)
          else Inr (Latency m / 1000 * quantile_multiplier q))"
proof -
  obtain rest' where t: "TrimSpace (''histogram_quantile('' @ a @ '','' @ rest) =
      ''histogram_quantile('' @ a @ '','' @ rest'"
    using TrimSpace_histogram_query by blast
  have f: "FindStringSubmatch histogramRegex (''histogram_quantile('' @ a @ '','' @ rest') = Some a"
    using assms by (rule histogramRegex_hit)
  have "parseQuery (''histogram_quantile('' @ a @ '','' @ rest) m =
      handleHistogramQuantile (''histogram_quantile('' @ a @ '','' @ rest') m"
    unfolding parseQuery_def t by (simp add: HasPrefix_def)
  also have "\<dots> = (case ParseFloat a of
        None \<Rightarrow> Inl (''invalid quantile value: '' @ a)
      | Some q \<Rightarrow>
          if q > 1 then Inl (''quantile must be between 0 and 1, got: '' @ Sprintf_f 6 q)
          else Inr (Latency m / 1000 * quantile_multiplier q))"
    unfolding handleHistogramQuantile_def f
    by (auto simp: Let_def split: option.splits dest: ParseFloat_nonneg)
  finally show ?thesis .
qed


subsection \<open>Quantiles\<close>


lemma quantile_multiplier_mono:
  assumes "q1 \<le> q2"
  shows "quantile_multiplier q1 \<le> quantile_multiplier q2"
  using assms unfolding quantile_multiplier_def
  by (simp split: if_splits) argo



text \<open>
  Claim C6. With the metric values fixed and the latency not negative, the value of
  \<open>histogram_quantile(a,rest\<close> does not decrease when the quantile grows: as soon as the
  arguments of two queries are read as \<open>q1 \<le> q2\<close>, both at most 1, both queries evaluate
  to a number, and the first number is at most the second.
\<close>

theorem histogram_quantile_mono:
  assumes "a1 \<noteq> []" and "\<forall>c \<in> set a1. is_digit c \<or> c = CHR ''.''"
    and "a2 \<noteq> []" and "\<forall>c \<in> set a2. is_digit c \<or> c = CHR ''.''"
    and "ParseFloat a1 = Some q1" and "ParseFloat a2 = Some q2"
    and "q1 \<le> q2" and "q2 \<le> 1" and "0 \<le> Latency m"
  shows "\<exists>v1 v2. parseQuery (''histogram_quantile('' @ a1 @ '','' @ rest1) m = Inr v1
             \<and> parseQuery (''histogram_quantile('' @ a2 @ '','' @ rest2) m = Inr v2
             \<and> v1 \<le> v2"
proof -
  have le: "Latency m / 1000 * quantile_multiplier q1 \<le> Latency m / 1000 * quantile_multiplier q2"
    using assms(7,9) by (intro mult_left_mono quantile_multiplier_mono) simp_all
  have "q1 \<le> 1"
    using assms(7,8) by simp
  then have v1: "parseQuery (''histogram_quantile('' @ a1 @ '','' @ rest1) m =
      Inr (Latency m / 1000 * quantile_multiplier q1)"
    using parseQuery_histogram_query [OF assms(1,2), of rest1 m] assms(5) by simp
  have v2: "parseQuery (''histogram_quantile('' @ a2 @ '','' @ rest2) m =
      Inr (Latency m / 1000 * quantile_multiplier q2)"
    using parseQuery_histogram_query [OF assms(3,4), of rest2 m] assms(6,8) by simp
  from v1 v2 le show ?thesis
    by blast
qed


text \<open>
  The latency spike at its start (150 ms), asked for the quantiles 0.50, 0.75, 0.90, 0.95
  and 0.99.
\<close>

theorem histogram_quantile_mono_witness:
  "list_all (\<lambda>a. a \<noteq> [] \<and> list_all (\<lambda>c. is_digit c \<or> c = CHR ''.'') a)
     [''0.50'', ''0.75'', ''0.90'', ''0.95'', ''0.99'']
   \<and> map ParseFloat [''0.50'', ''0.75'', ''0.90'', ''0.95'', ''0.99''] =
       [Some 0.5, Some 0.75, Some 0.9, Some 0.95, Some 0.99]
   \<and> (0.5::real) \<le> 0.75 \<and> (0.75::real) \<le> 0.9 \<and> (0.9::real) \<le> 0.95
   \<and> (0.95::real) \<le> 0.99 \<and> (0.99::real) \<le> 1
   \<and> 0 \<le> Latency (GetCurrentMetrics (NewMockServer 0 ''latency-spike'') 0)
   \<and> (\<exists>v1 v2 v3 v4 v5.
         parseQuery ''histogram_quantile(0.50, rate(http_request_duration_seconds_bucket[5m]))''
           (GetCurrentMetrics (NewMockServer 0 ''latency-spike'') 0) = Inr v1
       \<and> parseQuery ''histogram_quantile(0.75, rate(http_request_duration_seconds_bucket[5m]))''
           (GetCurrentMetrics (NewMockServer 0 ''latency-spike'') 0) = Inr v2
       \<and> parseQuery ''histogram_quantile(0.90, rate(http_request_duration_seconds_bucket[5m]))''
           (GetCurrentMetrics (NewMockServer 0 ''latency-spike'') 0) = Inr v3
       \<and> parseQuery ''histogram_quantile(0.95, rate(http_request_duration_seconds_bucket[5m]))''
           (GetCurrentMetrics (NewMockServer 0 ''latency-spike'') 0) = Inr v4
       \<and> parseQuery ''histogram_quantile(0.99, rate(http_request_duration_seconds_bucket[5m]))''
           (GetCurrentMetrics (NewMockServer 0 ''latency-spike'') 0) = Inr v5
       \<and> v1 \<le> v2 \<and> v2 \<le> v3 \<and> v3 \<le> v4 \<and> v4 \<le> v5)"
proof -
  let ?m = "GetCurrentMetrics (NewMockServer 0 ''latency-spike'') 0"
  let ?r = "'' rate(http_request_duration_seconds_bucket[5m]))''"
  have p: "ParseFloat ''0.50'' = Some 0.5" "ParseFloat ''0.75'' = Some 0.75"
    "ParseFloat ''0.90'' = Some 0.9" "ParseFloat ''0.95'' = Some 0.95"
    "ParseFloat ''0.99'' = Some 0.99"
    by (simp_all add: ParseFloat_def is_digit_def decimal_val_def digit_val_def)
  have c: "\<forall>c \<in> set ''0.50''. is_digit c \<or> c = CHR ''.''"
    "\<forall>c \<in> set ''0.75''. is_digit c \<or> c = CHR ''.''"
    "\<forall>c \<in> set ''0.90''. is_digit c \<or> c = CHR ''.''"
    "\<forall>c \<in> set ''0.95''. is_digit c \<or> c = CHR ''.''"
    "\<forall>c \<in> set ''0.99''. is_digit c \<or> c = CHR ''.''"
    by (simp_all add: is_digit_def)
  have l: "0 \<le> Latency ?m"
    by (simp add: GetCurrentMetrics_def NewMockServer_def calculateCurrentMetrics_def
        GetScenario_cases CalculateLatency_def scenario_defs Minute_def Second_def)
  have n: "''0.50'' \<noteq> []" "''0.75'' \<noteq> []" "''0.90'' \<noteq> []" "''0.95'' \<noteq> []" "''0.99'' \<noteq> []"
    by simp_all
  have o: "(0.5::real) \<le> 0.75" "(0.75::real) \<le> 0.9" "(0.9::real) \<le> 0.95"
    "(0.95::real) \<le> 0.99" "(0.75::real) \<le> 1" "(0.9::real) \<le> 1" "(0.95::real) \<le> 1"
    "(0.99::real) \<le> 1"
    by simp_all
  have s: "\<exists>v1 v2 v3 v4 v5. A = Inr v1 \<and> B = Inr v2 \<and> C = Inr v3 \<and> D = Inr v4 \<and> E = Inr v5
      \<and> v1 \<le> v2 \<and> v2 \<le> v3 \<and> v3 \<le> v4 \<and> v4 \<le> v5"
    if "\<exists>v1 v2. A = Inr v1 \<and> B = Inr v2 \<and> v1 \<le> v2"
      "\<exists>v1 v2. B = Inr v1 \<and> C = Inr v2 \<and> v1 \<le> v2"
      "\<exists>v1 v2. C = Inr v1 \<and> D = Inr v2 \<and> v1 \<le> v2"
      "\<exists>v1 v2. D = Inr v1 \<and> E = Inr v2 \<and> v1 \<le> v2"
    for A B C D E :: "string + real"
    using that by auto
  have "\<exists>v1 v2 v3 v4 v5.
         parseQuery (''histogram_quantile('' @ ''0.50'' @ '','' @ ?r) ?m = Inr v1
       \<and> parseQuery (''histogram_quantile('' @ ''0.75'' @ '','' @ ?r) ?m = Inr v2
       \<and> parseQuery (''histogram_quantile('' @ ''0.90'' @ '','' @ ?r) ?m = Inr v3
       \<and> parseQuery (''histogram_quantile('' @ ''0.95'' @ '','' @ ?r) ?m = Inr v4
       \<and> parseQuery (''histogram_quantile('' @ ''0.99'' @ '','' @ ?r) ?m = Inr v5
       \<and> v1 \<le> v2 \<and> v2 \<le> v3 \<and> v3 \<le> v4 \<and> v4 \<le> v5"
    by (rule s)
      (rule histogram_quantile_mono [OF n(1) c(1) n(2) c(2) p(1) p(2) o(1) o(5) l]
        histogram_quantile_mono [OF n(2) c(2) n(3) c(3) p(2) p(3) o(2) o(6) l]
        histogram_quantile_mono [OF n(3) c(3) n(4) c(4) p(3) p(4) o(3) o(7) l]
        histogram_quantile_mono [OF n(4) c(4) n(5) c(5) p(4) p(5) o(4) o(8) l])+
  then show ?thesis
    using p l by (simp add: is_digit_def)
qed

subsection \<open>Evaluating queries\<close>

lemmas trim_eval = TrimSpace_def TrimRight_def white_space_def TrimLeft.simps

lemmas query_eval =
  parseQuery_def HasPrefix_def handleRate_def handleHistogramQuantile_def rateRegex_def
  histogramRegex_def match_run_def is_digit_def

lemma TrimSpace_examples:
  "TrimSpace ''totally_invalid_metric'' = ''totally_invalid_metric''"
  "TrimSpace ''rate(incomplete'' = ''rate(incomplete''"
  "TrimSpace ''supported_thing'' = ''supported_thing''"
  "TrimSpace ''histogram_quantile(abc, rate(http_request_duration_seconds_bucket[5m]))'' =
     ''histogram_quantile(abc, rate(http_request_duration_seconds_bucket[5m]))''"
  "TrimSpace ''histogram_quantile(-0.5, rate(http_request_duration_seconds_bucket[5m]))'' =
     ''histogram_quantile(-0.5, rate(http_request_duration_seconds_bucket[5m]))''"
  "TrimSpace ''histogram_quantile(1.5, rate(http_request_duration_seconds_bucket[5m]))'' =
     ''histogram_quantile(1.5, rate(http_request_duration_seconds_bucket[5m]))''"
  by (simp_all add: trim_eval)

lemma parseQuery_examples:
  "parseQuery ''totally_invalid_metric'' m = Inl ''unsupported metric query: totally_invalid_metric''"
  "parseQuery ''rate(incomplete'' m = Inl ''invalid rate query format''"
  "parseQuery ''supported_thing'' m = Inr (Up_metric m)"
  "parseQuery ''histogram_quantile(abc, rate(http_request_duration_seconds_bucket[5m]))'' m =
     Inl ''invalid histogram_quantile format''"
  "parseQuery ''histogram_quantile(-0.5, rate(http_request_duration_seconds_bucket[5m]))'' m =
     Inl ''invalid histogram_quantile format''"
  unfolding parseQuery_def TrimSpace_examples
  by (simp_all add: query_eval)





subsection \<open>Direct metric queries\<close>

lemma Contains_TrimSpace_metrics:
  "Contains (TrimSpace s) ''http_requests_errors_total'' = Contains s ''http_requests_errors_total''"
  "Contains (TrimSpace s) ''http_request_duration_seconds'' =
     Contains s ''http_request_duration_seconds''"
  "Contains (TrimSpace s) ''up'' = Contains s ''up''"
  by (rule Contains_TrimSpace; simp add: space_bytes_eq)+

text \<open>
  Claim C10. For every query whose trimmed form starts neither with \<open>rate(\<close> nor with
  \<open>histogram_quantile(\<close>, the three metric names are looked for as substrings, in the
  order \<open>http_requests_errors_total\<close>, \<open>http_request_duration_seconds\<close>, \<open>up\<close>, and the
  first one found decides the value; the query is an unsupported metric only when it holds
  none of them. So a query that holds \<open>up\<close> anywhere always evaluates to a number, which is
  the value of \<open>up\<close> unless one of the two longer names occurs as well.
\<close>

theorem parseQuery_direct_metrics:
  assumes "\<not> HasPrefix (TrimSpace query) ''rate(''"
    and "\<not> HasPrefix (TrimSpace query) ''histogram_quantile(''"
  shows "parseQuery query m =
          (if Contains query ''http_requests_errors_total''
           then Inr (ErrorRate m / 100 * 100)
           else if Contains query ''http_request_duration_seconds''
           then Inr (Latency m / 1000)
           else if Contains query ''up'' then Inr (Up_metric m)
           else Inl (''unsupported metric query: '' @ TrimSpace query))
       \<and> (Contains query ''up'' \<longrightarrow> (\<exists>v. parseQuery query m = Inr v))
       \<and> (Contains query ''up'' \<and> \<not> Contains query ''http_requests_errors_total''
            \<and> \<not> Contains query ''http_request_duration_seconds'' \<longrightarrow>
          parseQuery query m = Inr (Up_metric m))"
proof -
  have eq: "parseQuery query m =
          (if Contains query ''http_requests_errors_total''
           then Inr (ErrorRate m / 100 * 100)
           else if Contains query ''http_request_duration_seconds''
           then Inr (Latency m / 1000)
           else if Contains query ''up'' then Inr (Up_metric m)
           else Inl (''unsupported metric query: '' @ TrimSpace query))"
    using assms
    by (simp add: parseQuery_def Contains_TrimSpace_metrics baselineRequestsPerSecond_def)
  then have "\<exists>v. parseQuery query m = Inr v" if "Contains query ''up''"
    unfolding eq using that
    by (cases "Contains query ''http_requests_errors_total''";
        cases "Contains query ''http_request_duration_seconds''")
      (simp_all only: if_True if_False, blast+)
  moreover have "parseQuery query m = Inr (Up_metric m)"
    if "Contains query ''up''" "\<not> Contains query ''http_requests_errors_total''"
      "\<not> Contains query ''http_request_duration_seconds''"
    unfolding eq using that by simp
  ultimately show ?thesis
    using eq by blast
qed

theorem parseQuery_direct_metrics_witness:
  "\<not> HasPrefix (TrimSpace ''supported_thing'') ''rate(''
   \<and> \<not> HasPrefix (TrimSpace ''supported_thing'') ''histogram_quantile(''
   \<and> Contains ''supported_thing'' ''up''
   \<and> parseQuery ''supported_thing'' \<lparr>ErrorRate = 5, Latency = 200, Up_metric = 1\<rparr> = Inr 1
   \<and> \<not> HasPrefix (TrimSpace ''  up or http_requests_errors_total '') ''rate(''
   \<and> \<not> HasPrefix (TrimSpace ''  up or http_requests_errors_total '') ''histogram_quantile(''
   \<and> parseQuery ''  up or http_requests_errors_total ''
        \<lparr>ErrorRate = 5, Latency = 200, Up_metric = 1\<rparr> = Inr 5"
proof -
  have t: "TrimSpace ''supported_thing'' = ''supported_thing''"
    "TrimSpace ''  up or http_requests_errors_total '' = ''up or http_requests_errors_total''"
    by (simp_all add: trim_eval)
  have h: "\<not> HasPrefix (TrimSpace ''supported_thing'') ''rate(''"
    "\<not> HasPrefix (TrimSpace ''supported_thing'') ''histogram_quantile(''"
    "\<not> HasPrefix (TrimSpace ''  up or http_requests_errors_total '') ''rate(''"
    "\<not> HasPrefix (TrimSpace ''  up or http_requests_errors_total '') ''histogram_quantile(''"
    unfolding t by (simp_all add: HasPrefix_def)
  show ?thesis
    using parseQuery_direct_metrics [OF h(1,2), of "\<lparr>ErrorRate = 5, Latency = 200, Up_metric = 1\<rparr>"]
      parseQuery_direct_metrics [OF h(3,4), of "\<lparr>ErrorRate = 5, Latency = 200, Up_metric = 1\<rparr>"]
      h
    by simp
qed

subsection \<open>Error responses\<close>

lemma ExecuteQuery_Inl:
  "parseQuery query (GetCurrentMetrics ms now) = Inl e \<Longrightarrow>
   ExecuteQuery ms now stamp query =
     \<lparr>Status = ''error'', Data = \<lparr>ResultType = [], Result = []\<rparr>, Error = e,
      ErrorType = ''bad_data''\<rparr>"
  by (simp add: ExecuteQuery_def)


text \<open>
  Claim C9. Whenever the evaluation of a query fails, whatever the cause, the response
  has the status \<open>error\<close>, the error type \<open>bad_data\<close>, no data, and the message of the
  failure. Two failed queries get responses that differ in the message at most: no
  other field tells the causes apart.
\<close>

theorem ExecuteQuery_error_bad_data:
  assumes "parseQuery q1 (GetCurrentMetrics ms1 now1) = Inl e1"
    and "parseQuery q2 (GetCurrentMetrics ms2 now2) = Inl e2"
  shows "ExecuteQuery ms1 now1 stamp1 q1 =
           \<lparr>Status = ''error'', Data = \<lparr>ResultType = [], Result = []\<rparr>, Error = e1,
            ErrorType = ''bad_data''\<rparr>
       \<and> Status (ExecuteQuery ms1 now1 stamp1 q1) = ''error''
       \<and> ErrorType (ExecuteQuery ms1 now1 stamp1 q1) = ''bad_data''
       \<and> ErrorType (ExecuteQuery ms2 now2 stamp2 q2) = ErrorType (ExecuteQuery ms1 now1 stamp1 q1)
       \<and> (ExecuteQuery ms2 now2 stamp2 q2)\<lparr>Error := e1\<rparr> = ExecuteQuery ms1 now1 stamp1 q1"
  using assms by (simp add: ExecuteQuery_Inl)

text \<open>An unknown metric and a malformed \<open>rate\<close>, asked of a healthy server.\<close>

theorem ExecuteQuery_error_bad_data_witness:
  "parseQuery ''totally_invalid_metric'' (GetCurrentMetrics (NewMockServer 0 ''healthy'') 5) =
     Inl ''unsupported metric query: totally_invalid_metric''
   \<and> parseQuery ''rate(incomplete'' (GetCurrentMetrics (NewMockServer 0 ''healthy'') 9) =
     Inl ''invalid rate query format''
   \<and> ExecuteQuery (NewMockServer 0 ''healthy'') 5 5 ''totally_invalid_metric'' =
       \<lparr>Status = ''error'', Data = \<lparr>ResultType = [], Result = []\<rparr>,
        Error = ''unsupported metric query: totally_invalid_metric'', ErrorType = ''bad_data''\<rparr>
   \<and> ErrorType (ExecuteQuery (NewMockServer 0 ''healthy'') 9 9 ''rate(incomplete'') = ''bad_data''"
  using ExecuteQuery_error_bad_data [of "''totally_invalid_metric''" "NewMockServer 0 ''healthy''" 5
      "''unsupported metric query: totally_invalid_metric''" "''rate(incomplete''"
      "NewMockServer 0 ''healthy''" 9 "''invalid rate query format''" 5 9]
  by (simp add: parseQuery_examples)




subsection \<open>Histogram buckets\<close>














subsection \<open>Durations\<close>

lemma quot_nonneg: "0 \<le> a \<Longrightarrow> 0 < b \<Longrightarrow> quot a b = a div b"
  by (cases "a = 0") (simp_all add: quot_def)

lemma rem_nonneg: "0 \<le> a \<Longrightarrow> 0 < b \<Longrightarrow> rem a b = a mod b"
  by (simp add: rem_def quot_nonneg minus_mult_div_eq_mod)

lemma trunc_fraction:
  assumes "0 \<le> q" "0 \<le> r" "r < n"
  shows "trunc (real_of_int q + real_of_int r / real_of_int n) = q"
proof -
  have "0 \<le> real_of_int r / real_of_int n" "real_of_int r / real_of_int n < 1"
    using assms by simp_all
  then have "\<lfloor>real_of_int q + real_of_int r / real_of_int n\<rfloor> = q"
    by linarith
  moreover have "0 \<le> real_of_int q + real_of_int r / real_of_int n"
    using assms(1) \<open>0 \<le> real_of_int r / real_of_int n\<close> by linarith
  ultimately show ?thesis
    by (simp add: trunc_def)
qed

lemma wrap64_id: "- (2 ^ 63) \<le> x \<Longrightarrow> x < 2 ^ 63 \<Longrightarrow> wrap64 x = x"
  by (simp add: wrap64_def)

lemma lessThanHalf_small:
  "0 \<le> x \<Longrightarrow> x < 2 ^ 62 \<Longrightarrow> 0 \<le> y \<Longrightarrow> y < 2 ^ 63 \<Longrightarrow> lessThanHalf x y = (x + x < y)"
  by (simp add: lessThanHalf_def)

lemma Round_Second:
  assumes "0 \<le> d" "d < 9223372036500000000"
  shows "Round d Second = nearest_second d * 1000000000"
proof -
  define r where "r = d mod 1000000000"
  define k where "k = d div 1000000000"
  have d: "d = k * 1000000000 + r" and r: "0 \<le> r" "r < 1000000000"
    by (simp_all add: r_def k_def)
  have k: "0 \<le> k" "k \<le> 9223372036"
    using assms by (simp_all add: k_def pos_imp_zdiv_nonneg_iff)
  have rem: "rem d Second = r"
    using assms(1) by (simp add: rem_nonneg Second_def r_def)
  have lh: "lessThanHalf r Second = (r + r < 1000000000)"
    using r by (simp add: lessThanHalf_small Second_def)
  show ?thesis
  proof (cases "r + r < 1000000000")
    case True
    have "nearest_second d = k"
      unfolding nearest_second_def d using True r
      by (simp add: div_pos_pos_trivial add.assoc)
    moreover have "wrap64 (d - r) = k * 1000000000"
      using k by (simp add: d wrap64_id)
    ultimately show ?thesis
      using True assms(1) by (simp add: Round_def Second_def [symmetric] rem lh Let_def)
        (simp add: Second_def)
  next
    case False
    have k': "k \<le> 9223372035"
      using assms(2) False unfolding d by linarith
    have "(k * 1000000000 + r + 500000000) = (k + 1) * 1000000000 + (r - 500000000)"
      by simp
    then have n: "nearest_second d = k + 1"
      unfolding nearest_second_def d using False r
      by (simp add: div_pos_pos_trivial)
    have e: "d + 1000000000 - r = (k + 1) * 1000000000"
      by (simp add: d)
    have b: "(k + 1) * 1000000000 < 2 ^ 63" "(k + 1) * 1000000000 > d"
      using k' r by (simp_all add: d)
    have "wrap64 ((k + 1) * 1000000000) = (k + 1) * 1000000000"
      using k(1) b(1) by (intro wrap64_id) simp_all
    with n e b show ?thesis
      using False assms(1)
      by (simp add: Round_def Second_def [symmetric] rem lh Let_def)
  qed
qed


lemma units_of_seconds:
  assumes "0 \<le> t"
  shows "trunc (Hours (t * 1000000000)) = t div 3600"
    and "trunc (Minutes (t * 1000000000)) = t div 60"
    and "trunc (Seconds (t * 1000000000)) = t"
proof -
  have h: "t * 1000000000 div 3600000000000 = t div 3600"
    "t * 1000000000 mod 3600000000000 = (t mod 3600) * 1000000000"
    using div_mult_mult2 [of 1000000000 t 3600] mod_mult_mult2 [of t 1000000000 3600]
    by simp_all
  have "trunc (real_of_int (t div 3600) +
      real_of_int ((t mod 3600) * 1000000000) / real_of_int 3600000000000) = t div 3600"
    using assms by (intro trunc_fraction) (simp_all add: pos_imp_zdiv_nonneg_iff)
  then show "trunc (Hours (t * 1000000000)) = t div 3600"
    using assms by (simp add: Hours_def quot_nonneg rem_nonneg Hour_def Minute_def Second_def h)
  have m: "t * 1000000000 div 60000000000 = t div 60"
    "t * 1000000000 mod 60000000000 = (t mod 60) * 1000000000"
    using div_mult_mult2 [of 1000000000 t 60] mod_mult_mult2 [of t 1000000000 60]
    by simp_all
  have "trunc (real_of_int (t div 60) +
      real_of_int ((t mod 60) * 1000000000) / real_of_int 60000000000) = t div 60"
    using assms by (intro trunc_fraction) (simp_all add: pos_imp_zdiv_nonneg_iff)
  then show "trunc (Minutes (t * 1000000000)) = t div 60"
    using assms by (simp add: Minutes_def quot_nonneg rem_nonneg Minute_def Second_def m)
  show "trunc (Seconds (t * 1000000000)) = t"
    using assms by (simp add: Seconds_def quot_nonneg rem_nonneg Second_def trunc_def)
qed

lemma formatDuration_seconds:
  assumes "0 \<le> t" "Round d Second = t * 1000000000"
  shows "formatDuration d =
     (if t < 60 then Sprintf_d t @ ''s''
      else if t < 3600 then Sprintf_d (t div 60) @ ''m '' @ Sprintf_d (t mod 60) @ ''s''
      else Sprintf_d (t div 3600) @ ''h '' @ Sprintf_d (t div 60 mod 60) @ ''m '' @
           Sprintf_d (t mod 60) @ ''s'')"
proof -
  have m: "0 \<le> t div 60"
    using assms(1) by (simp add: pos_imp_zdiv_nonneg_iff)
  have h: "0 < t div 3600 \<longleftrightarrow> 3600 \<le> t"
    using assms(1) by (simp add: pos_imp_zdiv_pos_iff)
  have m': "0 < t div 60 mod 60 \<longleftrightarrow> 60 \<le> t" "t div 60 mod 60 = t div 60" if "t < 3600"
    using assms(1) that by (simp_all add: pos_imp_zdiv_pos_iff)
  show ?thesis
    using assms(1) m h m'
    by (simp add: formatDuration_def assms(2) units_of_seconds rem_nonneg Let_def not_less)
qed


lemma Round_Second_saturates:
  assumes "9223372036500000000 \<le> d" "d \<le> maxDuration"
  shows "Round d Second = maxDuration"
proof -
  define r where "r = d - 9223372036000000000"
  have r: "500000000 \<le> r" "r < 1000000000" and d: "d = 9223372036 * 1000000000 + r"
    using assms by (simp_all add: r_def maxDuration_def)
  have "(9223372036 * 1000000000 + r) mod 1000000000 = r mod 1000000000"
    by (simp only: mod_mult_self3)
  then have "d mod 1000000000 = r"
    unfolding d using r by (simp only: mod_pos_pos_trivial)
  then have rem: "rem d Second = r"
    using assms(1) by (simp add: rem_nonneg Second_def)
  have lh: "\<not> lessThanHalf r Second"
    using r by (simp add: lessThanHalf_small Second_def)
  have "wrap64 (d + 1000000000 - r) = 9223372037000000000 - 2 ^ 64"
    by (simp add: d wrap64_def)
  then have "\<not> wrap64 (d + Second - r) > d"
    using assms(1) by (simp add: Second_def)
  with rem lh show ?thesis
    using assms(1) by (simp add: Round_def Let_def) (simp add: Second_def)
qed

lemma formatDuration_cong:
  "Round d Second = Round d' Second \<Longrightarrow> formatDuration d = formatDuration d'"
  by (simp add: formatDuration_def)

lemmas duration_eval =
  formatDuration_def Round_def rem_def quot_def lessThanHalf_def wrap64_def Second_def
  Hours_def Minutes_def Seconds_def trunc_def Hour_def Minute_def Let_def maxDuration_def

lemmas Sprintf_d_eval = Sprintf_d_def digits_of.simps digit_char_def

lemma formatDuration_maxDuration: "formatDuration maxDuration = ''2562047h 47m 16s''"
  by (simp add: duration_eval) (simp add: Sprintf_d_eval)

lemma formatDuration_examples:
  "formatDuration (3665 * Second) = ''1h 1m 5s''"
  "formatDuration (65 * Second) = ''1m 5s''"
  by (simp add: duration_eval, simp add: Sprintf_d_eval)+

text \<open>
  Claim C7, as the code has it. A duration that is not negative and whose nearest second
  still is a duration, which is any duration below 9223372036.5 seconds, is rounded to
  the nearest second (a half goes up) and printed as \<open>Ns\<close> below a minute, \<open>Nm Ms\<close> below
  an hour and \<open>Nh Mm Ss\<close> from an hour on, so that every unit below the largest one shown is
  shown; 3665 seconds are \<open>1h 1m 5s\<close> and 65 seconds are \<open>1m 5s\<close>. For the longer durations
  up to the largest one, rounding gives the largest duration, which is no whole second,
  and the text is \<open>2562047h 47m 16s\<close>.
\<close>

theorem formatDuration_nearest_second:
  "(0 \<le> d \<and> d < 9223372036500000000 \<longrightarrow> formatDuration d = spec_formatDuration d)
   \<and> (9223372036500000000 \<le> d \<and> d \<le> maxDuration \<longrightarrow>
        formatDuration d = ''2562047h 47m 16s'')
   \<and> formatDuration (3665 * Second) = ''1h 1m 5s''
   \<and> formatDuration (65 * Second) = ''1m 5s''"
proof -
  have 1: "formatDuration d = spec_formatDuration d" if "0 \<le> d" "d < 9223372036500000000"
  proof -
    have "0 \<le> nearest_second d"
      using that(1) by (simp add: nearest_second_def pos_imp_zdiv_nonneg_iff)
    then show ?thesis
      using formatDuration_seconds [OF _ Round_Second [OF that]]
      by (simp add: spec_formatDuration_def Let_def)
  qed
  have 2: "formatDuration d = ''2562047h 47m 16s''"
    if "9223372036500000000 \<le> d" "d \<le> maxDuration"
  proof -
    have "Round d Second = Round maxDuration Second"
      using Round_Second_saturates [OF that] Round_Second_saturates [of maxDuration]
      by (simp add: maxDuration_def)
    then show ?thesis
      using formatDuration_cong formatDuration_maxDuration by metis
  qed
  show ?thesis
    using 1 2 formatDuration_examples by blast
qed

theorem formatDuration_nearest_second_witness:
  "(0::int) \<le> 3665400000000 \<and> (3665400000000::int) < 9223372036500000000
   \<and> formatDuration 3665400000000 = ''1h 1m 5s''
   \<and> (0::int) \<le> 59500000000 \<and> (59500000000::int) < 9223372036500000000
   \<and> formatDuration 59500000000 = ''1m 0s''
   \<and> (0::int) \<le> 59499999999 \<and> formatDuration 59499999999 = ''59s''
   \<and> (9223372036500000000::int) \<le> 9223372036500000000
   \<and> 9223372036500000000 \<le> maxDuration
   \<and> formatDuration 9223372036500000000 = ''2562047h 47m 16s''"
proof -
  have s: "spec_formatDuration 3665400000000 = ''1h 1m 5s''"
    "spec_formatDuration 59500000000 = ''1m 0s''"
    "spec_formatDuration 59499999999 = ''59s''"
    by (simp add: spec_formatDuration_def nearest_second_def, simp add: Sprintf_d_eval)+
  show ?thesis
    using formatDuration_nearest_second [of 3665400000000]
      formatDuration_nearest_second [of 59500000000]
      formatDuration_nearest_second [of 59499999999]
      formatDuration_nearest_second [of 9223372036500000000] s
    by (simp add: maxDuration_def)
qed

text \<open>
  Claim C7 as stated fails at the largest duration, 9223372036.854775807 seconds: its
  nearest second is 9223372037 seconds, which would read \<open>2562047h 47m 17s\<close>, and the
  text is \<open>2562047h 47m 16s\<close>.
\<close>

theorem formatDuration_counterexample:
  "(0::int) \<le> 9223372036854775807
   \<and> formatDuration 9223372036854775807 = ''2562047h 47m 16s''
   \<and> spec_formatDuration 9223372036854775807 = ''2562047h 47m 17s''
   \<and> formatDuration 9223372036854775807 \<noteq> spec_formatDuration 9223372036854775807"
proof -
  have f: "formatDuration 9223372036854775807 = ''2562047h 47m 16s''"
    using formatDuration_maxDuration by (simp add: maxDuration_def)
  have s: "spec_formatDuration 9223372036854775807 = ''2562047h 47m 17s''"
    by (simp add: spec_formatDuration_def nearest_second_def) (simp add: Sprintf_d_eval)
  show ?thesis
    unfolding f s by simp
qed

end
